theory Spec2Isabelle
  imports Main
begin

section \<open>Text primitives\<close>

text \<open>
  The converter \<^verbatim>\<open>ppt_to_json.py\<close> works on Python strings. Text is modelled as
  \<^typ>\<open>string\<close> and taken to be ASCII; the functions below are Python's \<^verbatim>\<open>str\<close> methods
  on ASCII text, under their Python names.
\<close>

definition is_space :: "char \<Rightarrow> bool" where
  \<comment> \<open>\<^verbatim>\<open>str.isspace\<close> on one ASCII character: TAB, LF, VT, FF, CR, FS, GS, RS, US, SPACE.\<close>
  "is_space c = (c \<in> set [CHR 0x09, CHR 0x0A, CHR 0x0B, CHR 0x0C, CHR 0x0D,
                            CHR 0x1C, CHR 0x1D, CHR 0x1E, CHR 0x1F, CHR 0x20])"

definition lstrip :: "string \<Rightarrow> string" where
  "lstrip s = dropWhile is_space s"

definition rstrip :: "string \<Rightarrow> string" where
  "rstrip s = rev (dropWhile is_space (rev s))"

definition strip :: "string \<Rightarrow> string" where
  \<comment> \<open>\<^verbatim>\<open>s.strip()\<close>\<close>
  "strip s = rstrip (lstrip s)"

definition lstrip_char :: "char \<Rightarrow> string \<Rightarrow> string" where
  \<comment> \<open>\<^verbatim>\<open>s.lstrip(c)\<close> for a one-character argument\<close>
  "lstrip_char c s = dropWhile (\<lambda>x. x = c) s"

definition lower_letters :: string where
  "lower_letters = ''abcdefghijklmnopqrstuvwxyz''"

definition upper_letters :: string where
  "upper_letters = ''ABCDEFGHIJKLMNOPQRSTUVWXYZ''"

definition upper_char :: "char \<Rightarrow> char" where
  "upper_char c = (case map_of (zip lower_letters upper_letters) c of Some u \<Rightarrow> u | None \<Rightarrow> c)"

definition lower_char :: "char \<Rightarrow> char" where
  "lower_char c = (case map_of (zip upper_letters lower_letters) c of Some l \<Rightarrow> l | None \<Rightarrow> c)"

definition upper :: "string \<Rightarrow> string" where
  \<comment> \<open>\<^verbatim>\<open>s.upper()\<close>\<close>
  "upper s = map upper_char s"

definition lower :: "string \<Rightarrow> string" where
  \<comment> \<open>\<^verbatim>\<open>s.lower()\<close>\<close>
  "lower s = map lower_char s"

fun startswith :: "string \<Rightarrow> string \<Rightarrow> bool" where
  \<comment> \<open>\<^verbatim>\<open>s.startswith(p)\<close>\<close>
  "startswith s [] = True"
| "startswith [] (p # ps) = False"
| "startswith (c # cs) (p # ps) = (c = p \<and> startswith cs ps)"

definition endswith :: "string \<Rightarrow> string \<Rightarrow> bool" where
  \<comment> \<open>\<^verbatim>\<open>s.endswith(p)\<close>\<close>
  "endswith s p = startswith (rev s) (rev p)"

fun contains :: "string \<Rightarrow> string \<Rightarrow> bool" where
  \<comment> \<open>\<^verbatim>\<open>p in s\<close>: \<open>p\<close> occurs in \<open>s\<close> as a run of consecutive characters\<close>
  "contains [] p = (p = [])"
| "contains (c # cs) p = (startswith (c # cs) p \<or> contains cs p)"

definition replace_char :: "char \<Rightarrow> char \<Rightarrow> string \<Rightarrow> string" where
  \<comment> \<open>\<^verbatim>\<open>s.replace(a, b)\<close> for one-character \<open>a\<close> and \<open>b\<close>\<close>
  "replace_char a b s = map (\<lambda>c. if c = a then b else c) s"

fun remove_dotdot :: "string \<Rightarrow> string" where
  \<comment> \<open>\<^verbatim>\<open>s.replace("..", "")\<close>: one pass from the left, occurrences do not overlap\<close>
  "remove_dotdot (c # d # cs) =
     (if c = CHR ''.'' \<and> d = CHR ''.'' then remove_dotdot cs else c # remove_dotdot (d # cs))"
| "remove_dotdot cs = cs"

fun join :: "string \<Rightarrow> string list \<Rightarrow> string" where
  \<comment> \<open>\<^verbatim>\<open>sep.join(parts)\<close>\<close>
  "join sep [] = []"
| "join sep [p] = p"
| "join sep (p # q # ps) = p @ sep @ join sep (q # ps)"

definition digit_char :: "nat \<Rightarrow> char" where
  "digit_char d = ''0123456789'' ! (d mod 10)"

fun decimal :: "nat \<Rightarrow> string" where
  \<comment> \<open>\<^verbatim>\<open>str(n)\<close> for a natural number\<close>
  "decimal n = (if n < 10 then [digit_char n] else decimal (n div 10) @ [digit_char (n mod 10)])"

declare decimal.simps [simp del]

definition zero_padded :: "nat \<Rightarrow> nat \<Rightarrow> string" where
  \<comment> \<open>the format \<^verbatim>\<open>{n:0wd}\<close>: at least \<open>w\<close> digits, zeros on the left\<close>
  "zero_padded w n = replicate (w - length (decimal n)) CHR ''0'' @ decimal n"

definition basename :: "string \<Rightarrow> string" where
  \<comment> \<open>\<^verbatim>\<open>os.path.basename\<close>: what follows the last slash\<close>
  "basename p = rev (takeWhile (\<lambda>c. c \<noteq> CHR ''/'') (rev p))"

fun skip_dots :: "string \<Rightarrow> string" where
  "skip_dots [] = []"
| "skip_dots (c # cs) = (if c = CHR ''.'' then skip_dots cs else c # cs)"

definition splitext_ext :: "string \<Rightarrow> string" where
  \<comment> \<open>the second component of \<^verbatim>\<open>os.path.splitext(p)\<close>: from the last dot of the last
      path component on, where the dots that start the component do not count; empty when
      that component has no such dot\<close>
  "splitext_ext p =
     (let name = skip_dots (basename p) in
      if CHR ''.'' \<in> set name
      then CHR ''.'' # rev (takeWhile (\<lambda>c. c \<noteq> CHR ''.'') (rev name))
      else [])"

section \<open>The deck: slides, shapes and the archive\<close>

text \<open>
  A slide is what the converter reads of a \<^verbatim>\<open>python-pptx\<close> slide object. Reading a
  region of a slide may raise; \<open>Fault\<close> is a read that raised, \<open>Got v\<close> one that gave
  \<open>v\<close>.
\<close>

datatype 'a access = Fault | Got 'a

text \<open>
  An attribute probed with \<^verbatim>\<open>hasattr\<close>: \<open>Missing\<close> is a read that raised
  \<^verbatim>\<open>AttributeError\<close>, which \<^verbatim>\<open>hasattr\<close> turns into \<^verbatim>\<open>False\<close>; \<open>Raises\<close> is a read
  that raised anything else, which \<^verbatim>\<open>hasattr\<close> lets through (the \<^verbatim>\<open>image\<close> of a
  linked picture raises \<^verbatim>\<open>ValueError\<close>); \<open>Has v\<close> is a read that gave \<open>v\<close>.
\<close>

datatype 'a attr = Missing | Raises | Has 'a

datatype error =
    RegionFault   \<comment> \<open>an exception from reading the text of a region\<close>
  | ImageFault    \<comment> \<open>an exception from reading the image of a picture shape\<close>

record picture =
  img_ext :: "string option access"
    \<comment> \<open>\<^verbatim>\<open>image.ext\<close>: possibly \<^verbatim>\<open>None\<close>, and a read that may raise\<close>
  img_blob :: "nat list"        \<comment> \<open>\<^verbatim>\<open>image.blob\<close>\<close>

record shape =
  shape_id :: nat                            \<comment> \<open>the identity of the shape object\<close>
  has_text_frame :: "bool option"            \<comment> \<open>\<open>None\<close>: the object has no such attribute\<close>
  text_frame_text :: "string option access"  \<comment> \<open>\<^verbatim>\<open>shape.text_frame.text\<close>\<close>
  shape_type :: "int option"                 \<comment> \<open>\<open>None\<close>: no such attribute\<close>
  shape_image :: "picture attr"              \<comment> \<open>\<^verbatim>\<open>shape.image\<close>\<close>

record slide =
  shapes :: "shape list"                     \<comment> \<open>\<^verbatim>\<open>slide.shapes\<close> in traversal order\<close>
  shapes_title :: "shape option access"      \<comment> \<open>\<^verbatim>\<open>slide.shapes.title\<close>\<close>
  notes_text :: "string option access"
    \<comment> \<open>\<^verbatim>\<open>slide.notes_slide.notes_text_frame.text\<close>; \<open>Fault\<close> when a link of the chain raises\<close>

section \<open>Slide field extractors\<close>

definition title_try :: "slide \<Rightarrow> error + string" where
  \<comment> \<open>the body of the \<^verbatim>\<open>try\<close> of \<^verbatim>\<open>get_slide_title\<close>, falling through to
      \<^verbatim>\<open>return ""\<close>; \<open>Inl\<close> is an exception\<close>
  "title_try sl =
     (case shapes_title sl of
        Fault \<Rightarrow> Inl RegionFault
      | Got None \<Rightarrow> Inr []
      | Got (Some t) \<Rightarrow>
          (case has_text_frame t of
             None \<Rightarrow> Inl RegionFault
           | Some False \<Rightarrow> Inr []
           | Some True \<Rightarrow>
               (case text_frame_text t of
                  Fault \<Rightarrow> Inl RegionFault
                | Got None \<Rightarrow> Inl RegionFault
                | Got (Some txt) \<Rightarrow> Inr (strip txt))))"

definition get_slide_title :: "slide \<Rightarrow> string" where
  \<comment> \<open>\<^verbatim>\<open>except Exception: pass\<close>, then \<^verbatim>\<open>return ""\<close>\<close>
  "get_slide_title sl = (case title_try sl of Inl e \<Rightarrow> [] | Inr t \<Rightarrow> t)"

definition is_title_shape :: "shape option \<Rightarrow> shape \<Rightarrow> bool" where
  \<comment> \<open>\<^verbatim>\<open>title_shape is not None and shape == title_shape\<close>; shapes are equal when they
      are the same object\<close>
  "is_title_shape title_shape sh =
     (case title_shape of None \<Rightarrow> False | Some t \<Rightarrow> shape_id sh = shape_id t)"

fun body_loop :: "shape option \<Rightarrow> shape list \<Rightarrow> string list \<Rightarrow> error + string list" where
  \<comment> \<open>the \<^verbatim>\<open>for shape in slide.shapes\<close> loop of \<^verbatim>\<open>get_body_text\<close>, with \<open>parts\<close>\<close>
  "body_loop title_shape [] parts = Inr parts"
| "body_loop title_shape (sh # shs) parts =
     (if has_text_frame sh \<noteq> Some True then body_loop title_shape shs parts
      else if is_title_shape title_shape sh then body_loop title_shape shs parts
      else
        (case text_frame_text sh of
           Fault \<Rightarrow> Inl RegionFault
         | Got t \<Rightarrow>
             (let text = strip (case t of None \<Rightarrow> [] | Some txt \<Rightarrow> txt)
              in body_loop title_shape shs (if text \<noteq> [] then parts @ [text] else parts))))"

definition get_body_text :: "slide \<Rightarrow> error + string" where
  "get_body_text sl =
     (let title_shape = (case shapes_title sl of Fault \<Rightarrow> None | Got t \<Rightarrow> t)
      in case body_loop title_shape (shapes sl) [] of
           Inl e \<Rightarrow> Inl e
         | Inr parts \<Rightarrow> Inr (strip (join [CHR 0x0A] parts)))"

definition get_notes_text :: "slide \<Rightarrow> string" where
  "get_notes_text sl =
     (case notes_text sl of
        Fault \<Rightarrow> []
      | Got None \<Rightarrow> strip []
      | Got (Some notes) \<Rightarrow> strip notes)"

section \<open>Media resolver\<close>

text \<open>
  The two extractors return the names of the files they write; the bytes written to the
  asset folders are not part of the model. The image extractor raises when the image of a
  picture shape cannot be read.
\<close>

definition image_name :: "nat \<Rightarrow> nat \<Rightarrow> string \<Rightarrow> string" where
  \<comment> \<open>\<^verbatim>\<open>f"slide{slide_idx_1based:03d}_img{img_num:02d}.{ext}"\<close>\<close>
  "image_name idx img_num ext =
     ''slide'' @ zero_padded 3 idx @ ''_img'' @ zero_padded 2 img_num @ ''.'' @ ext"

fun images_loop ::
  "nat \<Rightarrow> nat \<Rightarrow> shape list \<Rightarrow> string list \<Rightarrow> error + string list"
where
  \<comment> \<open>the loop of \<^verbatim>\<open>extract_images_from_slide\<close>, with \<open>img_num\<close> and \<open>extracted\<close>;
      \<^verbatim>\<open>hasattr(shape, "image")\<close> is evaluated only for a shape of type 13\<close>
  "images_loop idx img_num [] extracted = Inr extracted"
| "images_loop idx img_num (sh # shs) extracted =
     (if shape_type sh \<noteq> Some 13 then images_loop idx img_num shs extracted
      else
        (case shape_image sh of
           Missing \<Rightarrow> images_loop idx img_num shs extracted
         | Raises \<Rightarrow> Inl ImageFault
         | Has im \<Rightarrow>
             (case img_ext im of
                Fault \<Rightarrow> Inl ImageFault
              | Got e \<Rightarrow>
                  images_loop idx (img_num + 1) shs
                    (extracted @
                      [image_name idx (img_num + 1)
                         (lower (case e of None \<Rightarrow> ''png''
                                 | Some x \<Rightarrow> if x = [] then ''png'' else x))]))))"

definition extract_images_from_slide :: "slide \<Rightarrow> nat \<Rightarrow> error + string list" where
  "extract_images_from_slide sl idx = images_loop idx 0 (shapes sl) []"

text \<open>
  The archive of the deck: the names of its parts in \<^verbatim>\<open>namelist()\<close> order, each with
  the child elements of its XML root as \<^verbatim>\<open>ElementTree\<close> parses them (none for a part
  that is not a relationship manifest). Part names are taken to be distinct; reading the
  archive and parsing XML are taken as given.
\<close>

record element =
  el_tag :: string               \<comment> \<open>\<^verbatim>\<open>rel.tag\<close>\<close>
  el_target :: "string option"   \<comment> \<open>\<^verbatim>\<open>rel.attrib.get("Target")\<close>\<close>

type_synonym container = "(string \<times> element list) list"

definition namelist :: "container \<Rightarrow> string list" where
  "namelist z = map fst z"

definition xml_root :: "container \<Rightarrow> string \<Rightarrow> element list" where
  \<comment> \<open>\<^verbatim>\<open>ET.fromstring(z.read(path))\<close>, as the list of the root's children\<close>
  "xml_root z path = (case map_of z path of None \<Rightarrow> [] | Some rels \<Rightarrow> rels)"

definition AUDIO_EXTS :: "string set" where
  "AUDIO_EXTS = {''.mp3'', ''.m4a'', ''.wav'', ''.aac'', ''.ogg''}"

definition rels_path_for_slide :: "nat \<Rightarrow> string" where
  \<comment> \<open>\<^verbatim>\<open>_rels_path_for_slide\<close>\<close>
  "rels_path_for_slide idx = ''ppt/slides/_rels/slide'' @ decimal idx @ ''.xml.rels''"

definition normalize_target :: "string \<Rightarrow> string" where
  \<comment> \<open>the three lines of \<^verbatim>\<open>_slide_audio_targets\<close> that compute \<open>norm\<close>\<close>
  "normalize_target target =
     (let norm = replace_char (CHR 0x5C) (CHR ''/'') target;
          norm = lstrip_char (CHR ''/'') (remove_dotdot norm)
      in if \<not> startswith norm ''ppt/'' then ''ppt/'' @ norm else norm)"

definition rel_target :: "element \<Rightarrow> string" where
  \<comment> \<open>\<^verbatim>\<open>rel.attrib.get("Target", "") or ""\<close>\<close>
  "rel_target rel = (case el_target rel of None \<Rightarrow> [] | Some t \<Rightarrow> t)"

fun targets_loop :: "element list \<Rightarrow> string list \<Rightarrow> string list" where
  \<comment> \<open>the \<^verbatim>\<open>for rel in root\<close> loop of \<^verbatim>\<open>_slide_audio_targets\<close>, with \<open>targets\<close>\<close>
  "targets_loop [] targets = targets"
| "targets_loop (rel # rels) targets =
     (if \<not> endswith (lower (el_tag rel)) ''relationship'' then targets_loop rels targets
      else if \<not> contains (rel_target rel) ''media/'' then targets_loop rels targets
      else if splitext_ext (lower (normalize_target (rel_target rel))) \<in> AUDIO_EXTS
      then targets_loop rels (targets @ [normalize_target (rel_target rel)])
      else targets_loop rels targets)"

definition slide_audio_targets :: "container \<Rightarrow> nat \<Rightarrow> string list" where
  \<comment> \<open>\<^verbatim>\<open>_slide_audio_targets\<close>\<close>
  "slide_audio_targets z idx =
     (if rels_path_for_slide idx \<notin> set (namelist z) then []
      else targets_loop (xml_root z (rels_path_for_slide idx)) [])"

definition audio_name :: "nat \<Rightarrow> string \<Rightarrow> string" where
  \<comment> \<open>\<^verbatim>\<open>f"slide{slide_idx_1based:03d}_{base}"\<close> with \<open>base\<close> the target's basename\<close>
  "audio_name idx t = ''slide'' @ zero_padded 3 idx @ ''_'' @ basename t"

fun saved_loop :: "container \<Rightarrow> nat \<Rightarrow> string list \<Rightarrow> string list \<Rightarrow> string list" where
  \<comment> \<open>the \<^verbatim>\<open>for t in targets\<close> loop of \<^verbatim>\<open>extract_audio_from_slide\<close>, with \<open>saved\<close>\<close>
  "saved_loop z idx [] saved = saved"
| "saved_loop z idx (t # ts) saved =
     (if t \<notin> set (namelist z) then saved_loop z idx ts saved
      else saved_loop z idx ts (saved @ [audio_name idx t]))"

definition extract_audio_from_slide :: "container \<Rightarrow> nat \<Rightarrow> string list" where
  "extract_audio_from_slide z idx =
     (let targets = slide_audio_targets z idx
      in if targets = [] then [] else saved_loop z idx targets [])"

section \<open>Slide classifier and round assembler\<close>

record config =
  round1_title :: string   \<comment> \<open>\<^verbatim>\<open>--round1_title\<close>\<close>
  round2_title :: string   \<comment> \<open>\<^verbatim>\<open>--round2_title\<close>\<close>
  final_title :: string    \<comment> \<open>\<^verbatim>\<open>--final_title\<close>\<close>
  assets_root :: string    \<comment> \<open>\<^verbatim>\<open>--assets\<close>\<close>

definition default_config :: config where
  "default_config =
     \<lparr>round1_title = ''ROUND 1'', round2_title = ''ROUND 2'',
      final_title = ''FINAL JEOPARDY'', assets_root = ''assets''\<rparr>"

definition r1_key :: "config \<Rightarrow> string" where
  "r1_key cfg = upper (strip (round1_title cfg))"

definition r2_key :: "config \<Rightarrow> string" where
  "r2_key cfg = upper (strip (round2_title cfg))"

definition f_key :: "config \<Rightarrow> string" where
  "f_key cfg = upper (strip (final_title cfg))"

text \<open>
  A clue and the final record are the dictionaries the converter builds; a media key that
  is absent from the dictionary is \<open>None\<close>, and each media reference is its \<^verbatim>\<open>src\<close>.
\<close>

record clue =
  question :: string
  answer :: string
  images :: "string list option"
  audio :: "string list option"

record final_rec =
  fin_category :: string
  fin_question :: string
  fin_answer :: string
  fin_images :: "string list option"
  fin_audio :: "string list option"

definition image_refs :: "config \<Rightarrow> string list \<Rightarrow> string list option" where
  \<comment> \<open>\<^verbatim>\<open>if imgs:\<close> the list of \<^verbatim>\<open>f"{assets_root}/images/{n}"\<close>\<close>
  "image_refs cfg imgs =
     (if imgs = [] then None else Some (map (\<lambda>n. assets_root cfg @ ''/images/'' @ n) imgs))"

definition audio_refs :: "config \<Rightarrow> string list \<Rightarrow> string list option" where
  \<comment> \<open>\<^verbatim>\<open>if auds:\<close> the list of \<^verbatim>\<open>f"{assets_root}/audio/{n}"\<close>\<close>
  "audio_refs cfg auds =
     (if auds = [] then None else Some (map (\<lambda>n. assets_root cfg @ ''/audio/'' @ n) auds))"

datatype round = Round1 | Round2

type_synonym categories = "(string \<times> clue list) list"
  \<comment> \<open>an \<^verbatim>\<open>OrderedDict\<close> from category to its clues, in insertion order\<close>

record acc =
  current_round :: "round option"
  round1 :: categories
  round2 :: categories
  final :: "final_rec option"

definition initial :: acc where
  "initial = \<lparr>current_round = None, round1 = [], round2 = [], final = None\<rparr>"

definition get_round :: "round \<Rightarrow> acc \<Rightarrow> categories" where
  \<comment> \<open>\<^verbatim>\<open>rounds[current_round]\<close>\<close>
  "get_round r st = (case r of Round1 \<Rightarrow> round1 st | Round2 \<Rightarrow> round2 st)"

definition set_round :: "round \<Rightarrow> categories \<Rightarrow> acc \<Rightarrow> acc" where
  "set_round r od st = (case r of Round1 \<Rightarrow> st\<lparr>round1 := od\<rparr> | Round2 \<Rightarrow> st\<lparr>round2 := od\<rparr>)"

definition od_keys :: "categories \<Rightarrow> string list" where
  "od_keys od = map fst od"

definition od_setdefault :: "string \<Rightarrow> categories \<Rightarrow> categories" where
  \<comment> \<open>\<^verbatim>\<open>if category not in od: od[category] = []\<close>: a new key goes to the end\<close>
  "od_setdefault k od = (if k \<notin> set (od_keys od) then od @ [(k, [])] else od)"

fun od_append :: "string \<Rightarrow> clue \<Rightarrow> categories \<Rightarrow> categories" where
  \<comment> \<open>\<^verbatim>\<open>od[category].append(clue)\<close>; the key is present when the converter gets here\<close>
  "od_append k c [] = []"
| "od_append k c ((k', cs) # od) =
     (if k' = k then (k', cs @ [c]) # od else (k', cs) # od_append k c od)"

definition add_clue :: "string \<Rightarrow> clue \<Rightarrow> categories \<Rightarrow> categories" where
  "add_clue k c od = od_append k c (od_setdefault k od)"

definition title_key :: "slide \<Rightarrow> string" where
  \<comment> \<open>\<open>upper\<close> in the loop of \<^verbatim>\<open>main\<close>\<close>
  "title_key sl = upper (strip (get_slide_title sl))"

definition make_final ::
  "config \<Rightarrow> container \<Rightarrow> nat \<Rightarrow> slide \<Rightarrow> string \<Rightarrow> string list \<Rightarrow> final_rec"
where
  \<comment> \<open>the dictionary \<open>final\<close>, from the body text \<open>q\<close> and the image names \<open>imgs\<close>\<close>
  "make_final cfg z idx sl q imgs =
     \<lparr>fin_category = final_title cfg, fin_question = q, fin_answer = get_notes_text sl,
      fin_images = image_refs cfg imgs,
      fin_audio = audio_refs cfg (extract_audio_from_slide z idx)\<rparr>"

definition make_clue ::
  "config \<Rightarrow> container \<Rightarrow> nat \<Rightarrow> slide \<Rightarrow> string \<Rightarrow> string list \<Rightarrow> clue"
where
  \<comment> \<open>the dictionary \<open>clue\<close>, from the body text \<open>q\<close> and the image names \<open>imgs\<close>\<close>
  "make_clue cfg z idx sl q imgs =
     \<lparr>question = q, answer = get_notes_text sl,
      images = image_refs cfg imgs,
      audio = audio_refs cfg (extract_audio_from_slide z idx)\<rparr>"

definition step :: "config \<Rightarrow> container \<Rightarrow> acc \<Rightarrow> nat \<Rightarrow> slide \<Rightarrow> error + acc" where
  \<comment> \<open>one pass of the loop of \<^verbatim>\<open>main\<close> over slide \<open>sl\<close> with ordinal \<open>idx\<close>; the body is
      read before the images, and the images only for a slide that is kept\<close>
  "step cfg z st idx sl =
     (let title = strip (get_slide_title sl) in
      if upper title = r1_key cfg then Inr (st\<lparr>current_round := Some Round1\<rparr>)
      else if upper title = r2_key cfg then Inr (st\<lparr>current_round := Some Round2\<rparr>)
      else if upper title = f_key cfg then
        (case get_body_text sl of
           Inl e \<Rightarrow> Inl e
         | Inr q \<Rightarrow>
             (case extract_images_from_slide sl idx of
                Inl e \<Rightarrow> Inl e
              | Inr imgs \<Rightarrow>
                  Inr (st\<lparr>final := Some (make_final cfg z idx sl q imgs),
                          current_round := None\<rparr>)))
      else
        (case current_round st of
           None \<Rightarrow> Inr st
         | Some r \<Rightarrow>
             (case get_body_text sl of
                Inl e \<Rightarrow> Inl e
              | Inr q \<Rightarrow>
                  if title = [] \<or> q = [] \<or> get_notes_text sl = [] then Inr st
                  else
                    (case extract_images_from_slide sl idx of
                       Inl e \<Rightarrow> Inl e
                     | Inr imgs \<Rightarrow>
                         Inr (set_round r
                               (add_clue title (make_clue cfg z idx sl q imgs) (get_round r st))
                               st)))))"

fun run :: "config \<Rightarrow> container \<Rightarrow> acc \<Rightarrow> nat \<Rightarrow> slide list \<Rightarrow> error + acc" where
  \<comment> \<open>\<^verbatim>\<open>for idx, slide in enumerate(prs.slides, start=idx)\<close> from accumulator \<open>st\<close>\<close>
  "run cfg z st idx [] = Inr st"
| "run cfg z st idx (sl # sls) =
     (case step cfg z st idx sl of
        Inl e \<Rightarrow> Inl e
      | Inr st' \<Rightarrow> run cfg z st' (Suc idx) sls)"

section \<open>Document assembler\<close>

record category_out =
  cat_name :: string
  cat_clues :: "clue list"

record round_out =
  rd_name :: string
  rd_categories :: "category_out list"

record document =
  doc_title :: string
  doc_rounds :: "round_out list"
  doc_final :: "final_rec option"

definition categories_out :: "categories \<Rightarrow> category_out list" where
  "categories_out od = map (\<lambda>(cat, clues). \<lparr>cat_name = cat, cat_clues = clues\<rparr>) od"

definition build_document :: "acc \<Rightarrow> document" where
  "build_document st =
     \<lparr>doc_title = ''Jeopardy Content'',
      doc_rounds =
        [\<lparr>rd_name = ''Round 1'', rd_categories = categories_out (round1 st)\<rparr>,
         \<lparr>rd_name = ''Round 2'', rd_categories = categories_out (round2 st)\<rparr>],
      doc_final = final st\<rparr>"

definition main :: "config \<Rightarrow> container \<Rightarrow> slide list \<Rightarrow> error + document" where
  \<comment> \<open>\<^verbatim>\<open>main\<close> up to the dictionary \<open>data\<close> that it serialises\<close>
  "main cfg z slides =
     (case run cfg z initial 1 slides of
        Inl e \<Rightarrow> Inl e
      | Inr st \<Rightarrow> Inr (build_document st))"

section \<open>Notions used by the properties\<close>

text \<open>The four ways the loop of \<^verbatim>\<open>main\<close> takes a slide, in the order of its tests.\<close>

definition is_round1_marker :: "config \<Rightarrow> slide \<Rightarrow> bool" where
  "is_round1_marker cfg sl = (title_key sl = r1_key cfg)"

definition is_round2_marker :: "config \<Rightarrow> slide \<Rightarrow> bool" where
  "is_round2_marker cfg sl = (title_key sl \<noteq> r1_key cfg \<and> title_key sl = r2_key cfg)"

definition is_final_marker :: "config \<Rightarrow> slide \<Rightarrow> bool" where
  "is_final_marker cfg sl =
     (title_key sl \<noteq> r1_key cfg \<and> title_key sl \<noteq> r2_key cfg \<and> title_key sl = f_key cfg)"

definition no_marker :: "config \<Rightarrow> slide \<Rightarrow> bool" where
  \<comment> \<open>the title matches none of the three marker titles\<close>
  "no_marker cfg sl =
     (title_key sl \<noteq> r1_key cfg \<and> title_key sl \<noteq> r2_key cfg \<and> title_key sl \<noteq> f_key cfg)"

definition clues_of :: "string \<Rightarrow> categories \<Rightarrow> clue list" where
  \<comment> \<open>the clue list of a category, empty when the category is not there\<close>
  "clues_of k od = (case map_of od k of None \<Rightarrow> [] | Some cs \<Rightarrow> cs)"

definition clue_count :: "categories \<Rightarrow> nat" where
  "clue_count od = sum_list (map (\<lambda>(k, cs). length cs) od)"

definition other_round :: "round \<Rightarrow> round" where
  "other_round r = (case r of Round1 \<Rightarrow> Round2 | Round2 \<Rightarrow> Round1)"

definition text_region :: "shape \<Rightarrow> bool" where
  \<comment> \<open>\<^verbatim>\<open>getattr(shape, "has_text_frame", False)\<close> is true\<close>
  "text_region sh = (has_text_frame sh = Some True)"

definition title_of :: "slide \<Rightarrow> shape option" where
  \<comment> \<open>\<open>title_shape\<close> in \<^verbatim>\<open>get_body_text\<close>\<close>
  "title_of sl = (case shapes_title sl of Fault \<Rightarrow> None | Got t \<Rightarrow> t)"

definition body_readable :: "slide \<Rightarrow> bool" where
  \<comment> \<open>reading the text of every text region other than the title succeeds\<close>
  "body_readable sl =
     (\<forall>sh \<in> set (shapes sl).
        text_region sh \<and> \<not> is_title_shape (title_of sl) sh \<longrightarrow> text_frame_text sh \<noteq> Fault)"









text \<open>
  The normalisation as the specification words it: \<open>..\<close> path segments are collapsed
  (each removes the segment before it, or itself when there is none), leading slashes
  are stripped and the path is rooted under \<^verbatim>\<open>ppt/\<close>. It is here to be compared with
  \<^const>\<open>normalize_target\<close>.
\<close>

fun split_path :: "string \<Rightarrow> string \<Rightarrow> string list" where
  \<comment> \<open>\<^verbatim>\<open>(cur + s).split("/")\<close>\<close>
  "split_path cur [] = [cur]"
| "split_path cur (c # cs) =
     (if c = CHR ''/'' then cur # split_path [] cs else split_path (cur @ [c]) cs)"

fun collapse_segments :: "string list \<Rightarrow> string list \<Rightarrow> string list" where
  "collapse_segments done [] = done"
| "collapse_segments done (seg # segs) =
     (if seg = ''..'' then collapse_segments (butlast done) segs
      else collapse_segments (done @ [seg]) segs)"

definition spec_normalize_target :: "string \<Rightarrow> string" where
  "spec_normalize_target target =
     (let norm = lstrip_char (CHR ''/'') (join ''/'' (collapse_segments [] (split_path [] target)))
      in if \<not> startswith norm ''ppt/'' then ''ppt/'' @ norm else norm)"

definition spec_candidate :: "element \<Rightarrow> string list" where
  \<comment> \<open>what one manifest entry contributes under the specification's normalisation\<close>
  "spec_candidate rel =
     (if contains (rel_target rel) ''media/''
         \<and> splitext_ext (lower (spec_normalize_target (rel_target rel))) \<in> AUDIO_EXTS
      then [spec_normalize_target (rel_target rel)] else [])"

definition audio_candidate :: "element \<Rightarrow> string list" where
  \<comment> \<open>what one manifest entry contributes to \<^verbatim>\<open>_slide_audio_targets\<close>\<close>
  "audio_candidate rel =
     (if endswith (lower (el_tag rel)) ''relationship''
         \<and> contains (rel_target rel) ''media/''
         \<and> splitext_ext (lower (normalize_target (rel_target rel))) \<in> AUDIO_EXTS
      then [normalize_target (rel_target rel)] else [])"

section \<open>Sample decks\<close>

definition text_shape :: "nat \<Rightarrow> string \<Rightarrow> shape" where
  \<comment> \<open>a placeholder with text \<open>t\<close>\<close>
  "text_shape i t =
     \<lparr>shape_id = i, has_text_frame = Some True, text_frame_text = Got (Some t),
      shape_type = Some 14, shape_image = Missing\<rparr>"


definition linked_picture_shape :: "nat \<Rightarrow> shape" where
  \<comment> \<open>a picture that is linked, not embedded: its type is 13 and reading its image raises\<close>
  "linked_picture_shape i =
     \<lparr>shape_id = i, has_text_frame = Some False, text_frame_text = Fault,
      shape_type = Some 13, shape_image = Raises\<rparr>"

definition faulty_shape :: "nat \<Rightarrow> shape" where
  \<comment> \<open>a shape that says it has a text frame and raises when the text is read\<close>
  "faulty_shape i =
     \<lparr>shape_id = i, has_text_frame = Some True, text_frame_text = Fault,
      shape_type = Some 17, shape_image = Missing\<rparr>"

definition text_slide :: "string \<Rightarrow> string list \<Rightarrow> string \<Rightarrow> slide" where
  \<comment> \<open>a slide with a title, one text box for each body text, and notes\<close>
  "text_slide t bodies n =
     \<lparr>shapes = text_shape 0 t # map (\<lambda>(i, b). text_shape (Suc i) b) (enumerate 0 bodies),
      shapes_title = Got (Some (text_shape 0 t)),
      notes_text = Got (Some n)\<rparr>"


definition layout_rel :: element where
  "layout_rel =
     \<lparr>el_tag = ''{http://schemas.openxmlformats.org/package/2006/relationships}Relationship'',
      el_target = Some ''../slideLayouts/slideLayout2.xml''\<rparr>"

definition media_rel :: "string \<Rightarrow> element" where
  "media_rel t =
     \<lparr>el_tag = ''{http://schemas.openxmlformats.org/package/2006/relationships}Relationship'',
      el_target = Some t\<rparr>"

definition round_trip_deck :: "slide list" where
  "round_trip_deck =
     [text_slide ''ROUND 1'' [] [],
      text_slide ''Science'' [''Water's chemical formula?''] ''H2O'',
      text_slide ''ROUND 2'' [] [],
      text_slide ''FINAL JEOPARDY'' [''Capital of France''] ''Paris'']"

definition round_trip_archive :: container where
  \<comment> \<open>every slide has a manifest; none names a media part\<close>
  "round_trip_archive =
     [(''ppt/slides/slide1.xml'', []), (''ppt/slides/_rels/slide1.xml.rels'', [layout_rel]),
      (''ppt/slides/slide2.xml'', []), (''ppt/slides/_rels/slide2.xml.rels'', [layout_rel]),
      (''ppt/slides/slide3.xml'', []), (''ppt/slides/_rels/slide3.xml.rels'', [layout_rel]),
      (''ppt/slides/slide4.xml'', []), (''ppt/slides/_rels/slide4.xml.rels'', [layout_rel])]"

definition faulty_slide :: slide where
  \<comment> \<open>a titled slide with notes, one of whose text boxes raises when its text is read\<close>
  "faulty_slide =
     \<lparr>shapes = [text_shape 0 ''Science'', faulty_shape 1],
      shapes_title = Got (Some (text_shape 0 ''Science'')),
      notes_text = Got (Some ''H2O'')\<rparr>"









definition dotted_archive :: container where
  \<comment> \<open>the manifest of slide 1 names a file with two dots in its name, and a path that
      goes up from a folder\<close>
  "dotted_archive =
     [(''ppt/slides/_rels/slide1.xml.rels'',
       [media_rel ''../media/a..b.mp3'', media_rel ''slides/../media/m.mp3'']),
      (''ppt/media/a..b.mp3'', []), (''ppt/media/m.mp3'', [])]"


definition with_shape :: "shape \<Rightarrow> slide \<Rightarrow> slide" where
  \<comment> \<open>the slide with one more shape at the end\<close>
  "with_shape sh sl = sl\<lparr>shapes := shapes sl @ [sh]\<rparr>"

definition linked_picture_slide :: slide where
  \<comment> \<open>a clue slide with title, body, notes and a linked picture\<close>
  "linked_picture_slide =
     with_shape (linked_picture_shape 9) (text_slide ''Music'' [''Name this tune''] ''Ode to Joy'')"

definition faulty_untitled_slide :: slide where
  \<comment> \<open>a slide with no title whose only text box raises when its text is read\<close>
  "faulty_untitled_slide = \<lparr>shapes = [faulty_shape 1], shapes_title = Got None, notes_text = Got None\<rparr>"


definition bare_final_slide :: slide where
  \<comment> \<open>a final slide with no body and no notes, and a linked picture\<close>
  "bare_final_slide = with_shape (linked_picture_shape 9) (text_slide ''FINAL JEOPARDY'' [] [])"

definition faulty_final_slide :: slide where
  \<comment> \<open>a final slide one of whose text boxes raises when its text is read\<close>
  "faulty_final_slide = with_shape (faulty_shape 9) (text_slide ''FINAL JEOPARDY'' [] ''Paris'')"


section \<open>Properties of one pass of the loop\<close>

lemma step_round1:
  "is_round1_marker cfg sl \<Longrightarrow> step cfg z st idx sl = Inr (st\<lparr>current_round := Some Round1\<rparr>)"
  by (simp add: step_def is_round1_marker_def title_key_def Let_def)

lemma step_round2:
  "is_round2_marker cfg sl \<Longrightarrow> step cfg z st idx sl = Inr (st\<lparr>current_round := Some Round2\<rparr>)"
  by (auto simp add: step_def is_round2_marker_def title_key_def Let_def)

lemma step_final:
  "is_final_marker cfg sl \<Longrightarrow> get_body_text sl = Inr q \<Longrightarrow>
   extract_images_from_slide sl idx = Inr imgs \<Longrightarrow>
   step cfg z st idx sl =
     Inr (st\<lparr>final := Some (make_final cfg z idx sl q imgs), current_round := None\<rparr>)"
  by (auto simp add: step_def is_final_marker_def title_key_def Let_def)

lemma step_final_fault:
  "is_final_marker cfg sl \<Longrightarrow> get_body_text sl = Inl e \<Longrightarrow> step cfg z st idx sl = Inl e"
  by (auto simp add: step_def is_final_marker_def title_key_def Let_def)

lemma step_final_image_fault:
  "is_final_marker cfg sl \<Longrightarrow> get_body_text sl = Inr q \<Longrightarrow>
   extract_images_from_slide sl idx = Inl e \<Longrightarrow> step cfg z st idx sl = Inl e"
  by (auto simp add: step_def is_final_marker_def title_key_def Let_def)

lemma step_skip:
  "no_marker cfg sl \<Longrightarrow> current_round st = None \<Longrightarrow> step cfg z st idx sl = Inr st"
  by (auto simp add: step_def no_marker_def title_key_def Let_def)

lemma step_content_fault:
  "no_marker cfg sl \<Longrightarrow> current_round st = Some r \<Longrightarrow> get_body_text sl = Inl e \<Longrightarrow>
   step cfg z st idx sl = Inl e"
  by (auto simp add: step_def no_marker_def title_key_def Let_def)

lemma step_drop:
  "no_marker cfg sl \<Longrightarrow> current_round st = Some r \<Longrightarrow> get_body_text sl = Inr q \<Longrightarrow>
   strip (get_slide_title sl) = [] \<or> q = [] \<or> get_notes_text sl = [] \<Longrightarrow>
   step cfg z st idx sl = Inr st"
  by (auto simp add: step_def no_marker_def title_key_def Let_def)

lemma step_clue:
  "no_marker cfg sl \<Longrightarrow> current_round st = Some r \<Longrightarrow> get_body_text sl = Inr q \<Longrightarrow>
   strip (get_slide_title sl) \<noteq> [] \<Longrightarrow> q \<noteq> [] \<Longrightarrow> get_notes_text sl \<noteq> [] \<Longrightarrow>
   extract_images_from_slide sl idx = Inr imgs \<Longrightarrow>
   step cfg z st idx sl =
     Inr (set_round r
           (add_clue (strip (get_slide_title sl)) (make_clue cfg z idx sl q imgs) (get_round r st))
           st)"
  by (auto simp add: step_def no_marker_def title_key_def Let_def)

lemma step_clue_image_fault:
  "no_marker cfg sl \<Longrightarrow> current_round st = Some r \<Longrightarrow> get_body_text sl = Inr q \<Longrightarrow>
   strip (get_slide_title sl) \<noteq> [] \<Longrightarrow> q \<noteq> [] \<Longrightarrow> get_notes_text sl \<noteq> [] \<Longrightarrow>
   extract_images_from_slide sl idx = Inl e \<Longrightarrow>
   step cfg z st idx sl = Inl e"
  by (auto simp add: step_def no_marker_def title_key_def Let_def)

lemma kinds_exhaust:
  "is_round1_marker cfg sl \<or> is_round2_marker cfg sl \<or> is_final_marker cfg sl \<or> no_marker cfg sl"
  by (auto simp: is_round1_marker_def is_round2_marker_def is_final_marker_def no_marker_def)

lemma od_append_keys: "od_keys (od_append k c od) = od_keys od"
  by (induction od) (auto simp: od_keys_def)

lemma clues_of_od_append_same:
  "k \<in> set (od_keys od) \<Longrightarrow> clues_of k (od_append k c od) = clues_of k od @ [c]"
  by (induction od) (force simp: od_keys_def clues_of_def)+

lemma clues_of_od_append_other:
  "k' \<noteq> k \<Longrightarrow> clues_of k' (od_append k c od) = clues_of k' od"
  by (induction od) (auto simp: clues_of_def)

lemma clue_count_od_append:
  "k \<in> set (od_keys od) \<Longrightarrow> clue_count (od_append k c od) = Suc (clue_count od)"
  by (induction od) (force simp: od_keys_def clue_count_def)+

lemma add_clue_keys:
  "od_keys (add_clue k c od) = od_keys od @ (if k \<in> set (od_keys od) then [] else [k])"
  by (simp add: add_clue_def od_setdefault_def od_append_keys) (simp add: od_keys_def)

lemma clues_of_notin: "k \<notin> set (od_keys od) \<Longrightarrow> clues_of k od = []"
  by (simp add: clues_of_def od_keys_def map_of_eq_None_iff[THEN iffD2])

lemma clues_of_snoc_new: "k \<notin> set (od_keys od) \<Longrightarrow> clues_of k (od @ [(k, cs)]) = cs"
  by (simp add: clues_of_def od_keys_def map_add_def map_of_eq_None_iff[THEN iffD2])

lemma clues_of_snoc_other: "k' \<noteq> k \<Longrightarrow> clues_of k' (od @ [(k, cs)]) = clues_of k' od"
  by (simp add: clues_of_def map_add_def split: option.splits)

lemma clue_count_snoc: "clue_count (od @ [(k, cs)]) = clue_count od + length cs"
  by (simp add: clue_count_def)

lemma clues_of_add_clue_same: "clues_of k (add_clue k c od) = clues_of k od @ [c]"
proof (cases "k \<in> set (od_keys od)")
  case True
  then show ?thesis by (simp add: add_clue_def od_setdefault_def clues_of_od_append_same)
next
  case False
  have "k \<in> set (od_keys (od @ [(k, [])]))" by (simp add: od_keys_def)
  then have "clues_of k (od_append k c (od @ [(k, [])])) = clues_of k (od @ [(k, [])]) @ [c]"
    by (rule clues_of_od_append_same)
  with False show ?thesis
    by (simp add: add_clue_def od_setdefault_def clues_of_snoc_new clues_of_notin)
qed

lemma clues_of_add_clue_other: "k' \<noteq> k \<Longrightarrow> clues_of k' (add_clue k c od) = clues_of k' od"
  by (simp add: add_clue_def od_setdefault_def clues_of_od_append_other clues_of_snoc_other)

lemma clue_count_add_clue: "clue_count (add_clue k c od) = Suc (clue_count od)"
proof (cases "k \<in> set (od_keys od)")
  case True
  then show ?thesis by (simp add: add_clue_def od_setdefault_def clue_count_od_append)
next
  case False
  have "k \<in> set (od_keys (od @ [(k, [])]))" by (simp add: od_keys_def)
  then have "clue_count (od_append k c (od @ [(k, [])])) = Suc (clue_count (od @ [(k, [])]))"
    by (rule clue_count_od_append)
  with False show ?thesis
    by (simp add: add_clue_def od_setdefault_def clue_count_snoc)
qed

lemma get_set_round_same: "get_round r (set_round r od st) = od"
  by (cases r) (simp_all add: get_round_def set_round_def)

lemma get_set_round_other: "get_round (other_round r) (set_round r od st) = get_round (other_round r) st"
  by (cases r) (simp_all add: get_round_def set_round_def other_round_def)

lemma set_round_frame:
  "current_round (set_round r od st) = current_round st" "final (set_round r od st) = final st"
  by (cases r; simp add: set_round_def)+

section \<open>Properties of the whole loop\<close>

lemma run_append:
  "run cfg z st idx (xs @ ys) =
     (case run cfg z st idx xs of Inl e \<Rightarrow> Inl e | Inr st' \<Rightarrow> run cfg z st' (idx + length xs) ys)"
  by (induction xs arbitrary: st idx) (auto split: sum.splits)

lemma step_cases:
  assumes "step cfg z st idx sl = Inr st'"
  obtains (r1) "is_round1_marker cfg sl" "st' = st\<lparr>current_round := Some Round1\<rparr>"
    | (r2) "is_round2_marker cfg sl" "st' = st\<lparr>current_round := Some Round2\<rparr>"
    | (fin) q imgs where "is_final_marker cfg sl" "get_body_text sl = Inr q"
        "extract_images_from_slide sl idx = Inr imgs"
        "st' = st\<lparr>final := Some (make_final cfg z idx sl q imgs), current_round := None\<rparr>"
    | (skip) "no_marker cfg sl" "current_round st = None" "st' = st"
    | (drop) r q where "no_marker cfg sl" "current_round st = Some r" "get_body_text sl = Inr q"
        "strip (get_slide_title sl) = [] \<or> q = [] \<or> get_notes_text sl = []" "st' = st"
    | (clue) r q imgs where "no_marker cfg sl" "current_round st = Some r"
        "get_body_text sl = Inr q"
        "strip (get_slide_title sl) \<noteq> []" "q \<noteq> []" "get_notes_text sl \<noteq> []"
        "extract_images_from_slide sl idx = Inr imgs"
        "st' = set_round r
                 (add_clue (strip (get_slide_title sl)) (make_clue cfg z idx sl q imgs)
                    (get_round r st)) st"
proof -
  consider "is_round1_marker cfg sl" | "is_round2_marker cfg sl" | "is_final_marker cfg sl"
    | "no_marker cfg sl"
    using kinds_exhaust by blast
  then show thesis
  proof cases
    case 1
    with assms have "st' = st\<lparr>current_round := Some Round1\<rparr>" by (simp add: step_round1)
    with 1 show ?thesis by (rule r1)
  next
    case 2
    with assms have "st' = st\<lparr>current_round := Some Round2\<rparr>" by (simp add: step_round2)
    with 2 show ?thesis by (rule r2)
  next
    case 3
    show ?thesis
    proof (cases "get_body_text sl")
      case (Inl e)
      with 3 assms have False by (simp add: step_final_fault)
      then show ?thesis ..
    next
      case (Inr q)
      note q = this
      show ?thesis
      proof (cases "extract_images_from_slide sl idx")
        case (Inl e)
        with 3 q assms have False by (simp add: step_final_image_fault)
        then show ?thesis ..
      next
        case (Inr imgs)
        with 3 q assms
        have "st' = st\<lparr>final := Some (make_final cfg z idx sl q imgs), current_round := None\<rparr>"
          by (simp add: step_final)
        with 3 q Inr show ?thesis by (rule fin)
      qed
    qed
  next
    case 4
    show ?thesis
    proof (cases "current_round st")
      case None
      with 4 assms have "st' = st" by (simp add: step_skip)
      with 4 None show ?thesis by (rule skip)
    next
      case (Some r)
      show ?thesis
      proof (cases "get_body_text sl")
        case (Inl e)
        with 4 Some assms have False by (simp add: step_content_fault)
        then show ?thesis ..
      next
        case (Inr q)
        note q = this
        show ?thesis
        proof (cases "strip (get_slide_title sl) = [] \<or> q = [] \<or> get_notes_text sl = []")
          case True
          with 4 Some q assms have "st' = st" by (simp add: step_drop)
          with 4 Some q True show ?thesis by (rule drop)
        next
          case False
          then have ne: "strip (get_slide_title sl) \<noteq> []" "q \<noteq> []" "get_notes_text sl \<noteq> []"
            by simp_all
          show ?thesis
          proof (cases "extract_images_from_slide sl idx")
            case (Inl e)
            with 4 Some q ne assms have False by (simp add: step_clue_image_fault)
            then show ?thesis ..
          next
            case (Inr imgs)
            with 4 Some q ne assms
            have "st' = set_round r
                 (add_clue (strip (get_slide_title sl)) (make_clue cfg z idx sl q imgs)
                    (get_round r st)) st"
              by (simp add: step_clue)
            with 4 Some q ne Inr show ?thesis by (rule clue)
          qed
        qed
      qed
    qed
  qed
qed

lemma step_final_kept:
  "\<not> is_final_marker cfg sl \<Longrightarrow> step cfg z st idx sl = Inr st' \<Longrightarrow> final st' = final st"
  by (erule step_cases) (auto simp: set_round_frame)

lemma run_final_kept:
  "\<forall>s \<in> set sls. \<not> is_final_marker cfg s \<Longrightarrow> run cfg z st idx sls = Inr st' \<Longrightarrow> final st' = final st"
proof (induction sls arbitrary: st idx)
  case Nil
  then show ?case by simp
next
  case (Cons sl sls)
  from Cons.prems(2) obtain st1 where s1: "step cfg z st idx sl = Inr st1"
    and r1: "run cfg z st1 (Suc idx) sls = Inr st'"
    by (auto split: sum.splits)
  from Cons.prems(1) have "\<not> is_final_marker cfg sl" by simp
  then have "final st1 = final st" using s1 by (rule step_final_kept)
  moreover from Cons.IH[OF _ r1] Cons.prems(1) have "final st' = final st1" by simp
  ultimately show ?case by simp
qed

lemma step_final_stays:
  "final st \<noteq> None \<Longrightarrow> step cfg z st idx sl = Inr st' \<Longrightarrow> final st' \<noteq> None"
  by (erule step_cases) (auto simp: set_round_frame)

lemma run_final_stays:
  "final st \<noteq> None \<Longrightarrow> run cfg z st idx sls = Inr st' \<Longrightarrow> final st' \<noteq> None"
proof (induction sls arbitrary: st idx)
  case Nil
  then show ?case by simp
next
  case (Cons sl sls)
  from Cons.prems(2) obtain st1 where s1: "step cfg z st idx sl = Inr st1"
    and r1: "run cfg z st1 (Suc idx) sls = Inr st'"
    by (auto split: sum.splits)
  from Cons.prems(1) s1 have "final st1 \<noteq> None" by (rule step_final_stays)
  then show ?case using r1 by (rule Cons.IH)
qed

lemma step_no_section:
  assumes "current_round st = None" "\<not> is_round1_marker cfg sl" "\<not> is_round2_marker cfg sl"
    and "step cfg z st idx sl = Inr st'"
  shows "current_round st' = None \<and> round1 st' = round1 st \<and> round2 st' = round2 st"
  using assms(4,1,2,3) by (cases rule: step_cases) auto

lemma run_no_section:
  "current_round st = None \<Longrightarrow>
   \<forall>s \<in> set sls. \<not> is_round1_marker cfg s \<and> \<not> is_round2_marker cfg s \<Longrightarrow>
   run cfg z st idx sls = Inr st' \<Longrightarrow>
   current_round st' = None \<and> round1 st' = round1 st \<and> round2 st' = round2 st"
proof (induction sls arbitrary: st idx)
  case Nil
  then show ?case by simp
next
  case (Cons sl sls)
  from Cons.prems(3) obtain st1 where s1: "step cfg z st idx sl = Inr st1"
    and r1: "run cfg z st1 (Suc idx) sls = Inr st'"
    by (auto split: sum.splits)
  from Cons.prems(2) have "\<not> is_round1_marker cfg sl" "\<not> is_round2_marker cfg sl" by simp_all
  with Cons.prems(1) s1
  have a: "current_round st1 = None \<and> round1 st1 = round1 st \<and> round2 st1 = round2 st"
    by (metis step_no_section)
  from Cons.prems(2) have b: "\<forall>s \<in> set sls. \<not> is_round1_marker cfg s \<and> \<not> is_round2_marker cfg s"
    by simp
  from Cons.IH[OF _ b r1] a show ?case by simp
qed

section \<open>Properties of the field extractors\<close>

lemma strip_Nil: "strip [] = []"
  by (simp add: strip_def lstrip_def rstrip_def)


lemma body_loop_total:
  "(\<exists>ps. body_loop ts shs parts = Inr ps)
     \<longleftrightarrow> (\<forall>sh \<in> set shs. text_region sh \<and> \<not> is_title_shape ts sh \<longrightarrow> text_frame_text sh \<noteq> Fault)"
proof (induction shs arbitrary: parts)
  case Nil
  then show ?case by simp
next
  case (Cons sh shs)
  show ?case
  proof (cases "text_region sh \<and> \<not> is_title_shape ts sh")
    case False
    then show ?thesis using Cons.IH by (auto simp: text_region_def)
  next
    case True
    show ?thesis
    proof (cases "text_frame_text sh")
      case Fault
      with True show ?thesis by (auto simp: text_region_def)
    next
      case (Got t)
      with True show ?thesis using Cons.IH by (simp add: text_region_def Let_def)
    qed
  qed
qed

lemma body_loop_skips:
  "\<forall>sh \<in> set shs. \<not> text_region sh \<or> is_title_shape ts sh \<Longrightarrow> body_loop ts shs parts = Inr parts"
  by (induction shs arbitrary: parts) (auto simp: text_region_def)

lemma get_body_text_total: "(\<exists>t. get_body_text sl = Inr t) \<longleftrightarrow> body_readable sl"
proof -
  have "(\<exists>t. get_body_text sl = Inr t) \<longleftrightarrow> (\<exists>ps. body_loop (title_of sl) (shapes sl) [] = Inr ps)"
    by (auto simp: get_body_text_def title_of_def Let_def split: sum.splits)
  then show ?thesis by (simp add: body_loop_total body_readable_def)
qed

lemma get_body_text_no_regions:
  assumes "\<forall>sh \<in> set (shapes sl). \<not> text_region sh \<or> is_title_shape (title_of sl) sh"
  shows "get_body_text sl = Inr []"
  using body_loop_skips[OF assms, of "[]"]
  by (simp add: get_body_text_def title_of_def Let_def strip_Nil)

section \<open>Properties of the media resolver\<close>












section \<open>Properties of the audio target resolver\<close>

lemma targets_loop_concat:
  "targets_loop rels targets = targets @ concat (map audio_candidate rels)"
  by (induction rels arbitrary: targets) (auto simp: audio_candidate_def)

lemma contains_dotdot_Cons:
  "contains (c # cs) ''..'' \<longleftrightarrow> (c = CHR ''.'' \<and> (\<exists>ds. cs = CHR ''.'' # ds)) \<or> contains cs ''..''"
  by (cases cs) auto

lemma remove_dotdot_head:
  "d \<noteq> CHR ''.'' \<Longrightarrow> \<exists>ds. remove_dotdot (d # cs) = d # ds"
  by (cases cs) auto

lemma remove_dotdot_clean: "\<not> contains (remove_dotdot s) ''..''"
proof (induction s rule: remove_dotdot.induct)
  case (1 c d cs)
  show ?case
  proof (cases "c = CHR ''.'' \<and> d = CHR ''.''")
    case True
    with 1 show ?thesis by simp
  next
    case False
    with 1 have ih: "\<not> contains (remove_dotdot (d # cs)) ''..''" by simp
    have "\<not> (c = CHR ''.'' \<and> (\<exists>ds. remove_dotdot (d # cs) = CHR ''.'' # ds))"
    proof
      assume a: "c = CHR ''.'' \<and> (\<exists>ds. remove_dotdot (d # cs) = CHR ''.'' # ds)"
      with False have d: "d \<noteq> CHR ''.''" by simp
      from remove_dotdot_head[OF d, of cs] a d show False by auto
    qed
    with ih False show ?thesis by (auto simp add: contains_dotdot_Cons simp del: contains.simps)
  qed
qed simp_all

lemma contains_dropWhile: "contains (dropWhile P s) p \<Longrightarrow> contains s p"
  by (induction s) (auto split: if_splits)

lemma contains_ppt: "contains (''ppt/'' @ s) ''..'' \<longleftrightarrow> contains s ''..''"
  by simp

lemma normalize_target_clean: "\<not> contains (normalize_target t) ''..''"
proof -
  let ?n = "lstrip_char (CHR ''/'') (remove_dotdot (replace_char (CHR 0x5C) (CHR ''/'') t))"
  have "\<not> contains ?n ''..''"
    unfolding lstrip_char_def using contains_dropWhile remove_dotdot_clean by blast
  then show ?thesis
    by (simp add: normalize_target_def Let_def del: contains.simps)
       (simp add: contains_dotdot_Cons del: contains.simps)
qed

lemma normalize_target_rooted: "startswith (normalize_target t) ''ppt/''"
  by (simp add: normalize_target_def Let_def)

lemma remove_dotdot_slash: "remove_dotdot (CHR ''/'' # s) = CHR ''/'' # remove_dotdot s"
  by (cases s) auto

lemma normalize_target_parent: "normalize_target (''../'' @ t) = normalize_target t"
  by (simp add: normalize_target_def replace_char_def lstrip_char_def remove_dotdot_slash)

lemma normalize_target_slash: "normalize_target (''/'' @ t) = normalize_target t"
  by (simp add: normalize_target_def replace_char_def lstrip_char_def remove_dotdot_slash)

lemma remove_dotdot_id: "\<not> contains s ''..'' \<Longrightarrow> remove_dotdot s = s"
  by (induction s rule: remove_dotdot.induct) (auto split: if_splits)

lemma replace_char_id: "a \<notin> set s \<Longrightarrow> replace_char a b s = s"
  by (induction s) (auto simp: replace_char_def)

lemma lstrip_char_id: "\<not> startswith s [c] \<Longrightarrow> lstrip_char c s = s"
  by (cases s) (auto simp: lstrip_char_def)

lemma normalize_target_plain:
  "\<not> contains t ''..'' \<Longrightarrow> CHR 0x5C \<notin> set t \<Longrightarrow> \<not> startswith t ''/'' \<Longrightarrow>
   normalize_target t = (if startswith t ''ppt/'' then t else ''ppt/'' @ t)"
  by (simp add: normalize_target_def replace_char_id remove_dotdot_id lstrip_char_id
        del: contains.simps startswith.simps)

lemma audio_candidate_props:
  "p \<in> set (audio_candidate rel) \<Longrightarrow>
   startswith p ''ppt/'' \<and> \<not> contains p ''..'' \<and> splitext_ext (lower p) \<in> AUDIO_EXTS"
  using normalize_target_rooted normalize_target_clean
  by (auto simp: audio_candidate_def simp del: contains.simps startswith.simps split: if_splits)

lemma slide_audio_targets_candidates:
  "slide_audio_targets z idx =
     (if rels_path_for_slide idx \<in> set (namelist z)
      then concat (map audio_candidate (xml_root z (rels_path_for_slide idx))) else [])"
  by (simp add: slide_audio_targets_def targets_loop_concat)

section \<open>Categories and clues in encounter order\<close>



lemma marker_kinds_apart:
  "is_round2_marker cfg sl \<Longrightarrow> \<not> is_round1_marker cfg sl"
  "is_final_marker cfg sl \<Longrightarrow> \<not> is_round1_marker cfg sl \<and> \<not> is_round2_marker cfg sl"
  "no_marker cfg sl \<Longrightarrow>
     \<not> is_round1_marker cfg sl \<and> \<not> is_round2_marker cfg sl \<and> \<not> is_final_marker cfg sl"
  by (auto simp: is_round1_marker_def is_round2_marker_def is_final_marker_def no_marker_def)















section \<open>What the passes do when every read succeeds\<close>

lemma extractors_on_absence_and_fault:
  "(title_try sl = Inl e \<longrightarrow> get_slide_title sl = [])
   \<and> (shapes_title sl = Fault \<or> shapes_title sl = Got None \<longrightarrow> get_slide_title sl = [])
   \<and> (notes_text sl = Fault \<or> notes_text sl = Got None \<longrightarrow> get_notes_text sl = [])
   \<and> ((\<exists>t. get_body_text sl = Inr t) \<longleftrightarrow> body_readable sl)
   \<and> ((\<forall>sh \<in> set (shapes sl). \<not> text_region sh \<or> is_title_shape (title_of sl) sh)
        \<longrightarrow> get_body_text sl = Inr [])"
proof (intro conjI impI)
  show "get_slide_title sl = []" if "title_try sl = Inl e"
    using that by (simp add: get_slide_title_def)
  show "get_slide_title sl = []" if "shapes_title sl = Fault \<or> shapes_title sl = Got None"
    using that by (auto simp: get_slide_title_def title_try_def)
  show "get_notes_text sl = []" if "notes_text sl = Fault \<or> notes_text sl = Got None"
    using that by (auto simp: get_notes_text_def strip_Nil)
  show "(\<exists>t. get_body_text sl = Inr t) \<longleftrightarrow> body_readable sl" by (rule get_body_text_total)
  show "get_body_text sl = Inr []"
    if "\<forall>sh \<in> set (shapes sl). \<not> text_region sh \<or> is_title_shape (title_of sl) sh"
    using that by (rule get_body_text_no_regions)
qed

lemma audio_targets_characterised:
  "(rels_path_for_slide idx \<in> set (namelist z)
      \<longrightarrow> slide_audio_targets z idx
            = concat (map audio_candidate (xml_root z (rels_path_for_slide idx))))
   \<and> (\<forall>p \<in> set (slide_audio_targets z idx).
         startswith p ''ppt/'' \<and> \<not> contains p ''..'' \<and> splitext_ext (lower p) \<in> AUDIO_EXTS)
   \<and> normalize_target (''../'' @ t) = normalize_target t
   \<and> normalize_target (''/'' @ t) = normalize_target t
   \<and> (\<not> contains t ''..'' \<and> CHR 0x5C \<notin> set t \<and> \<not> startswith t ''/''
        \<longrightarrow> normalize_target t = (if startswith t ''ppt/'' then t else ''ppt/'' @ t))"
proof (intro conjI impI ballI)
  show "slide_audio_targets z idx = concat (map audio_candidate (xml_root z (rels_path_for_slide idx)))"
    if "rels_path_for_slide idx \<in> set (namelist z)"
    using that by (simp add: slide_audio_targets_candidates)
  show "normalize_target (''../'' @ t) = normalize_target t" by (rule normalize_target_parent)
  show "normalize_target (''/'' @ t) = normalize_target t" by (rule normalize_target_slash)
  show "normalize_target t = (if startswith t ''ppt/'' then t else ''ppt/'' @ t)"
    if "\<not> contains t ''..'' \<and> CHR 0x5C \<notin> set t \<and> \<not> startswith t ''/''"
    using that by (simp add: normalize_target_plain del: contains.simps startswith.simps)
next
  fix p assume "p \<in> set (slide_audio_targets z idx)"
  then obtain rel where "p \<in> set (audio_candidate rel)"
    by (auto simp: slide_audio_targets_candidates split: if_splits)
  then have "startswith p ''ppt/'' \<and> \<not> contains p ''..'' \<and> splitext_ext (lower p) \<in> AUDIO_EXTS"
    by (rule audio_candidate_props)
  then show "startswith p ''ppt/''" "\<not> contains p ''..''" "splitext_ext (lower p) \<in> AUDIO_EXTS"
    by blast+
qed

lemma content_slide_pass:
  assumes sec: "current_round st = Some r"
    and nm: "no_marker cfg sl"
    and body: "get_body_text sl = Inr q"
  shows "(strip (get_slide_title sl) = [] \<or> q = [] \<or> get_notes_text sl = []
            \<longrightarrow> step cfg z st idx sl = Inr st)
       \<and> (strip (get_slide_title sl) \<noteq> [] \<and> q \<noteq> [] \<and> get_notes_text sl \<noteq> []
            \<longrightarrow> (\<forall>imgs. extract_images_from_slide sl idx = Inr imgs
                  \<longrightarrow> (\<exists>st'. step cfg z st idx sl = Inr st'
                  \<and> clues_of (strip (get_slide_title sl)) (get_round r st')
                      = clues_of (strip (get_slide_title sl)) (get_round r st)
                          @ [make_clue cfg z idx sl q imgs]
                  \<and> (\<forall>k. k \<noteq> strip (get_slide_title sl)
                        \<longrightarrow> clues_of k (get_round r st') = clues_of k (get_round r st))
                  \<and> clue_count (get_round r st') = Suc (clue_count (get_round r st))
                  \<and> get_round (other_round r) st' = get_round (other_round r) st
                  \<and> current_round st' = current_round st
                  \<and> final st' = final st)))"
proof (intro conjI impI allI)
  assume "strip (get_slide_title sl) = [] \<or> q = [] \<or> get_notes_text sl = []"
  with nm sec body show "step cfg z st idx sl = Inr st" by (rule step_drop)
next
  fix imgs
  assume full: "strip (get_slide_title sl) \<noteq> [] \<and> q \<noteq> [] \<and> get_notes_text sl \<noteq> []"
    and i: "extract_images_from_slide sl idx = Inr imgs"
  let ?k = "strip (get_slide_title sl)"
  let ?st' = "set_round r (add_clue ?k (make_clue cfg z idx sl q imgs) (get_round r st)) st"
  have "step cfg z st idx sl = Inr ?st'"
    using nm sec body full i by (simp add: step_clue)
  then show "\<exists>st'. step cfg z st idx sl = Inr st'
                  \<and> clues_of ?k (get_round r st')
                      = clues_of ?k (get_round r st) @ [make_clue cfg z idx sl q imgs]
                  \<and> (\<forall>k. k \<noteq> ?k \<longrightarrow> clues_of k (get_round r st') = clues_of k (get_round r st))
                  \<and> clue_count (get_round r st') = Suc (clue_count (get_round r st))
                  \<and> get_round (other_round r) st' = get_round (other_round r) st
                  \<and> current_round st' = current_round st
                  \<and> final st' = final st"
    by (intro exI[of _ ?st'])
       (simp add: get_set_round_same get_set_round_other set_round_frame
          clues_of_add_clue_same clues_of_add_clue_other clue_count_add_clue)
qed

lemma last_final_marker_wins:
  assumes m: "main cfg z (pre @ sl # post) = Inr doc"
    and fm: "is_final_marker cfg sl"
    and post: "\<forall>s \<in> set post. \<not> is_final_marker cfg s"
  shows "\<exists>q imgs. get_body_text sl = Inr q
           \<and> extract_images_from_slide sl (Suc (length pre)) = Inr imgs
           \<and> doc_final doc = Some (make_final cfg z (Suc (length pre)) sl q imgs)
           \<and> fin_category (make_final cfg z (Suc (length pre)) sl q imgs) = final_title cfg"
proof -
  from m obtain st where r: "run cfg z initial 1 (pre @ sl # post) = Inr st"
    and d: "doc = build_document st"
    by (auto simp: main_def split: sum.splits)
  from r obtain sta where ra: "run cfg z initial 1 pre = Inr sta"
    and rb: "run cfg z sta (1 + length pre) (sl # post) = Inr st"
    by (auto simp: run_append split: sum.splits)
  from rb obtain stb where s: "step cfg z sta (Suc (length pre)) sl = Inr stb"
    and rc: "run cfg z stb (Suc (Suc (length pre))) post = Inr st"
    by (auto split: sum.splits)
  from fm have km: "\<not> is_round1_marker cfg sl" "\<not> is_round2_marker cfg sl" "\<not> no_marker cfg sl"
    using marker_kinds_apart(2,3)[of cfg sl] by auto
  from s obtain q imgs where q: "get_body_text sl = Inr q"
    and i: "extract_images_from_slide sl (Suc (length pre)) = Inr imgs"
    and e: "stb = sta\<lparr>final := Some (make_final cfg z (Suc (length pre)) sl q imgs),
                       current_round := None\<rparr>"
  proof (cases rule: step_cases)
    case r1 with km show ?thesis by simp
  next
    case r2 with km show ?thesis by simp
  next
    case (fin q imgs) with that show ?thesis by simp
  next
    case skip with km show ?thesis by simp
  next
    case (drop r0 q) with km show ?thesis by simp
  next
    case (clue r0 q imgs) with km show ?thesis by simp
  qed
  from run_final_kept[OF post rc] e
  have "final st = Some (make_final cfg z (Suc (length pre)) sl q imgs)" by simp
  with d q i show ?thesis by (auto simp: build_document_def make_final_def)
qed

lemma final_marker_gives_final:
  assumes m: "main cfg z slides = Inr doc"
    and ex: "\<exists>sl \<in> set slides. is_final_marker cfg sl"
  shows "doc_final doc \<noteq> None"
proof -
  from ex obtain sl pre post where sp: "slides = pre @ sl # post" and fm: "is_final_marker cfg sl"
    by (auto simp: in_set_conv_decomp)
  from m obtain st where r: "run cfg z initial 1 (pre @ sl # post) = Inr st"
    and d: "doc = build_document st"
    by (auto simp: main_def sp split: sum.splits)
  from r obtain sta where rb: "run cfg z sta (1 + length pre) (sl # post) = Inr st"
    by (auto simp: run_append split: sum.splits)
  then obtain stb where s: "step cfg z sta (Suc (length pre)) sl = Inr stb"
    and rc: "run cfg z stb (Suc (Suc (length pre))) post = Inr st"
    by (auto split: sum.splits)
  from fm have km: "\<not> is_round1_marker cfg sl" "\<not> is_round2_marker cfg sl" "\<not> no_marker cfg sl"
    using marker_kinds_apart(2,3)[of cfg sl] by auto
  from s have "final stb \<noteq> None"
  proof (cases rule: step_cases)
    case r1 with km show ?thesis by simp
  next
    case r2 with km show ?thesis by simp
  next
    case (fin q imgs) then show ?thesis by simp
  next
    case skip with km show ?thesis by simp
  next
    case (drop r0 q) with km show ?thesis by simp
  next
    case (clue r0 q imgs) with km show ?thesis by simp
  qed
  then have "final st \<noteq> None" using rc by (rule run_final_stays)
  with d show ?thesis by (simp add: build_document_def)
qed

section \<open>The claims\<close>

subsection \<open>C1\<close>

text \<open>
  Claim C1 (round-trip scenario). On the deck whose slides are a \<open>ROUND 1\<close> title, a
  \<open>Science\<close> slide with body and notes, a \<open>ROUND 2\<close> title and a \<open>FINAL JEOPARDY\<close>
  slide with body and notes, none with media, the converter builds the document with one
  category \<open>Science\<close> of one clue in round 1, no category in round 2, and the final
  record; neither the clue nor the final record has an images or audio key.
\<close>

theorem round_trip_scenario:
  "main default_config round_trip_archive round_trip_deck =
     Inr \<lparr>doc_title = ''Jeopardy Content'',
          doc_rounds =
            [\<lparr>rd_name = ''Round 1'',
              rd_categories =
                [\<lparr>cat_name = ''Science'',
                  cat_clues = [\<lparr>question = ''Water's chemical formula?'', answer = ''H2O'',
                                images = None, audio = None\<rparr>]\<rparr>]\<rparr>,
             \<lparr>rd_name = ''Round 2'', rd_categories = []\<rparr>],
          doc_final = Some \<lparr>fin_category = ''FINAL JEOPARDY'',
                             fin_question = ''Capital of France'', fin_answer = ''Paris'',
                             fin_images = None, fin_audio = None\<rparr>\<rparr>"
  by code_simp

subsection \<open>C2\<close>

text \<open>
  Claim C2 (completeness drop) does not hold of the converter on a slide one of whose reads
  raises. A slide inside round 1 with a title, a body, notes and a linked picture yields no
  clue: reading the image of the picture raises, and the pass and the whole run abort. A
  slide inside a round with no title, which the claim has dropped in silence, aborts the
  pass when the text of one of its text boxes cannot be read, since the body is read
  before the test for empty fields.
\<close>

theorem content_slide_read_failure_aborts:
  "no_marker default_config linked_picture_slide
   \<and> strip (get_slide_title linked_picture_slide) = ''Music''
   \<and> get_body_text linked_picture_slide = Inr ''Name this tune''
   \<and> get_notes_text linked_picture_slide = ''Ode to Joy''
   \<and> step default_config round_trip_archive (initial\<lparr>current_round := Some Round1\<rparr>) 2
         linked_picture_slide = Inl ImageFault
   \<and> main default_config round_trip_archive [text_slide ''ROUND 1'' [] [], linked_picture_slide]
       = Inl ImageFault
   \<and> no_marker default_config faulty_untitled_slide
   \<and> strip (get_slide_title faulty_untitled_slide) = []
   \<and> step default_config round_trip_archive (initial\<lparr>current_round := Some Round1\<rparr>) 2
         faulty_untitled_slide = Inl RegionFault
   \<and> main default_config round_trip_archive [text_slide ''ROUND 1'' [] [], faulty_untitled_slide]
       = Inl RegionFault"
  by code_simp

subsection \<open>C3\<close>




subsection \<open>C4\<close>


subsection \<open>C5\<close>

text \<open>
  Claim C5 (audio targets) does not hold of the resolver: it does not collapse \<^verbatim>\<open>..\<close> path
  segments, it deletes every \<^verbatim>\<open>..\<close>. The manifest of slide 1 names two audio parts that
  the archive holds. The two dots inside the file name of the first are deleted, and the
  path of the second, which goes up from a folder, keeps the folder and an empty segment.
  Neither candidate is the part that the manifest names, and no audio is extracted, where
  the normalisation of the specification gives the two parts.
\<close>

theorem audio_target_dots_deleted:
  "set [''ppt/media/a..b.mp3'', ''ppt/media/m.mp3''] \<subseteq> set (namelist dotted_archive)
   \<and> concat (map spec_candidate (xml_root dotted_archive (rels_path_for_slide 1)))
       = [''ppt/media/a..b.mp3'', ''ppt/media/m.mp3'']
   \<and> slide_audio_targets dotted_archive 1 = [''ppt/media/ab.mp3'', ''ppt/slides//media/m.mp3'']
   \<and> normalize_target ''../media/a..b.mp3'' = ''ppt/media/ab.mp3''
   \<and> spec_normalize_target ''../media/a..b.mp3'' = ''ppt/media/a..b.mp3''
   \<and> extract_audio_from_slide dotted_archive 1 = []"
  by code_simp

subsection \<open>C6\<close>




subsection \<open>C7\<close>

text \<open>
  Claim C7 (the extractors never raise) does not hold of the body extractor. On a slide
  with a title, notes and a text box that raises when its text is read, the title and the
  notes are extracted, and \<^const>\<open>get_body_text\<close> raises: it guards the title lookup only,
  not the read of the text of the other regions, where the title and notes extractors
  guard every read.
\<close>

theorem body_text_read_raises:
  "get_slide_title faulty_slide = ''Science''
   \<and> get_notes_text faulty_slide = ''H2O''
   \<and> get_body_text faulty_slide = Inl RegionFault"
  by code_simp

subsection \<open>C8\<close>

text \<open>
  Claim C8 (pre-section skip). A slide whose title matches none of the three markers,
  met while the current section is \<open>None\<close>, leaves the whole accumulator as it was: no
  clue in either round, the same final record, the section still \<open>None\<close>. Its body and
  notes are not even read, so it is skipped whatever they hold.
\<close>
theorem pre_section_skip:
  assumes "current_round st = None" and "no_marker cfg sl"
  shows "step cfg z st idx sl = Inr st"
  using assms by (simp add: step_skip)

theorem pre_section_skip_witness:
  "current_round initial = None
   \<and> no_marker default_config (text_slide ''Science'' [''Water's chemical formula?''] ''H2O'')
   \<and> step default_config round_trip_archive initial 1
         (text_slide ''Science'' [''Water's chemical formula?''] ''H2O'') = Inr initial"
proof -
  have h1: "current_round initial = None" by code_simp
  have h2: "no_marker default_config (text_slide ''Science'' [''Water's chemical formula?''] ''H2O'')"
    by code_simp
  show ?thesis using pre_section_skip [OF h1 h2] h1 h2 by simp
qed

subsection \<open>C9\<close>




subsection \<open>C10\<close>

text \<open>
  Claim C10 (the final slide is never dropped) does not hold of the converter on a
  final-marker slide one of whose reads raises. A final slide with an empty body, empty
  notes and a linked picture stores no final record: reading the image of the picture
  raises and the run ends with no document. So does a final slide one of whose text boxes
  raises when its text is read.
\<close>

theorem final_slide_read_failure_aborts:
  "is_final_marker default_config bare_final_slide
   \<and> get_body_text bare_final_slide = Inr []
   \<and> get_notes_text bare_final_slide = []
   \<and> step default_config round_trip_archive initial 1 bare_final_slide = Inl ImageFault
   \<and> main default_config round_trip_archive [bare_final_slide] = Inl ImageFault
   \<and> is_final_marker default_config faulty_final_slide
   \<and> step default_config round_trip_archive initial 1 faulty_final_slide = Inl RegionFault
   \<and> main default_config round_trip_archive [faulty_final_slide] = Inl RegionFault"
  by code_simp

end
